theory Spec2Isabelle
  imports Complex_Main
begin

section \<open>JavaScript values\<close>

text \<open>
  The two components of the repository, \<^verbatim>\<open>src/frontend/src/App.jsx\<close> and
  \<^verbatim>\<open>src/frontend/src/App.js\<close>, are React function components. Each holds a few state
  cells, a submit handler that posts the entered URL to the classifier, and a render
  function from the state cells to markup.

  Strings are lists of code units; the model's alphabet is the code units below 256, so a
  \<^typ>\<open>char\<close> is one code unit. A number is a double: a finite double is the rational it
  denotes (the type \<^typ>\<open>rat\<close> has every double and more), the three others are
  constructors. The sign of zero is not modelled. An object is the list of its own
  properties, in insertion order, with distinct keys.
\<close>

datatype jsnum = Fin rat | PosInf | NegInf | NaN

datatype jsval =
    JUndefined
  | JNull
  | JBool bool
  | JNum jsnum
  | JStr string
  | JArr "jsval list"
  | JObj "(string \<times> jsval) list"

text \<open>ToBoolean: what \<^verbatim>\<open>x && ...\<close> and \<^verbatim>\<open>x || ...\<close> test.\<close>

fun truthy :: "jsval \<Rightarrow> bool" where
  "truthy JUndefined = False"
| "truthy JNull = False"
| "truthy (JBool b) = b"
| "truthy (JNum (Fin x)) = (x \<noteq> 0)"
| "truthy (JNum NaN) = False"
| "truthy (JNum PosInf) = True"
| "truthy (JNum NegInf) = True"
| "truthy (JStr s) = (s \<noteq> [])"
| "truthy (JArr xs) = True"
| "truthy (JObj kvs) = True"

text \<open>
  Property read \<^verbatim>\<open>v.k\<close> on a value that is neither \<^verbatim>\<open>null\<close> nor \<^verbatim>\<open>undefined\<close>, for
  the four names the components read (\<^verbatim>\<open>label\<close>, \<^verbatim>\<open>score\<close>, \<^verbatim>\<open>reasons\<close>,
  \<^verbatim>\<open>prediction\<close>): none of them is on a built-in prototype, so only an object's own
  property answers. On \<^verbatim>\<open>null\<close> and \<^verbatim>\<open>undefined\<close> the read throws a TypeError; the
  callers test for that before they use \<open>property\<close>.
\<close>

fun property :: "jsval \<Rightarrow> string \<Rightarrow> jsval" where
  "property (JObj kvs) k = (case map_of kvs k of None \<Rightarrow> JUndefined | Some v \<Rightarrow> v)"
| "property v k = JUndefined"

definition nullish :: "jsval \<Rightarrow> bool" where
  "nullish v = (v = JNull \<or> v = JUndefined)"

text \<open>
  \<^verbatim>\<open>String.prototype.trim\<close>: the white space and line terminators of ECMAScript that
  are code units below 256 are TAB, LF, VT, FF, CR, SPACE and NO-BREAK SPACE.
\<close>

definition is_ws :: "char \<Rightarrow> bool" where
  "is_ws c = (c \<in> set [CHR 0x09, CHR 0x0A, CHR 0x0B, CHR 0x0C, CHR 0x0D, CHR 0x20, CHR 0xA0])"

definition trim :: "string \<Rightarrow> string" where
  "trim s = rev (dropWhile is_ws (rev (dropWhile is_ws s)))"

text \<open>Decimal digits of a natural number, as \<^verbatim>\<open>String(n)\<close> prints an integer status code.\<close>

definition digit_char :: "nat \<Rightarrow> char" where
  "digit_char d = ''0123456789'' ! (d mod 10)"

function dec_digits :: "nat \<Rightarrow> string" where
  "dec_digits n = (if n < 10 then [digit_char n] else dec_digits (n div 10) @ [digit_char (n mod 10)])"
  by pat_completeness auto
termination
  by (relation "measure (\<lambda>n. n)") auto

declare dec_digits.simps [simp del]

text \<open>
  \<^verbatim>\<open>Number.prototype.toFixed(2)\<close>. A value that is not finite prints as its name. A finite
  \<open>x\<close> with \<open>|x| < 10^21\<close> prints as the integer \<open>n\<close> nearest to \<open>|x| * 100\<close> (the larger
  one of two), with a point before its last two digits and a minus sign when \<open>x < 0\<close>.
  From \<open>10^21\<close> on toFixed hands over to Number::toString, whose exponent notation is
  not expanded here: \<open>NumToString\<close> stands for that text.
\<close>

datatype shown_text =
    Text string
  | NumToString rat
  | StringOf jsval

definition hundredths :: "rat \<Rightarrow> nat" where
  "hundredths x = nat \<lfloor>\<bar>x\<bar> * 100 + 1 / 2\<rfloor>"

definition fixed2_text :: "bool \<Rightarrow> nat \<Rightarrow> string" where
  "fixed2_text neg n =
     (if neg then ''-'' else '''') @ dec_digits (n div 100) @ ''.'' @
     [digit_char ((n div 10) mod 10), digit_char (n mod 10)]"

fun toFixed2 :: "jsnum \<Rightarrow> shown_text" where
  "toFixed2 NaN = Text ''NaN''"
| "toFixed2 PosInf = Text ''Infinity''"
| "toFixed2 NegInf = Text ''-Infinity''"
| "toFixed2 (Fin x) =
     (if \<bar>x\<bar> \<ge> 10 ^ 21 then NumToString x
      else Text (fixed2_text (x < 0) (hundredths x)))"






text \<open>
  \<^verbatim>\<open>JSON.stringify\<close> of a string (QuoteJSONString) and of the one-property object
  \<^verbatim>\<open>{ url: t }\<close>. The quote and the backslash get a backslash, the control characters
  below 32 their short escape or \<^verbatim>\<open>\u00XX\<close>.
\<close>

definition hex_char :: "nat \<Rightarrow> char" where
  "hex_char d = ''0123456789abcdef'' ! (d mod 16)"

definition quote_char :: "char \<Rightarrow> string" where
  "quote_char c =
     (if c = CHR 0x22 then [CHR 0x5C, CHR 0x22]
      else if c = CHR 0x5C then [CHR 0x5C, CHR 0x5C]
      else if c = CHR 0x08 then [CHR 0x5C, CHR ''b'']
      else if c = CHR 0x09 then [CHR 0x5C, CHR ''t'']
      else if c = CHR 0x0A then [CHR 0x5C, CHR ''n'']
      else if c = CHR 0x0C then [CHR 0x5C, CHR ''f'']
      else if c = CHR 0x0D then [CHR 0x5C, CHR ''r'']
      else if (of_char c :: nat) < 32
        then [CHR 0x5C, CHR ''u'', CHR ''0'', CHR ''0'',
              hex_char (of_char c div 16), hex_char (of_char c mod 16)]
      else [c])"

definition quote_json :: "string \<Rightarrow> string" where
  "quote_json s = [CHR 0x22] @ concat (map quote_char s) @ [CHR 0x22]"

definition stringify_url :: "string \<Rightarrow> string" where
  "stringify_url t = ''{'' @ quote_json ''url'' @ '':'' @ quote_json t @ ''}''"

section \<open>The transport\<close>

text \<open>
  What \<^verbatim>\<open>fetch\<close> is called with, and what comes back. A rejected promise or a thrown
  exception carries an error object, of which the handlers read the \<^verbatim>\<open>message\<close> only.
  A response has its \<^verbatim>\<open>ok\<close> flag (status 200 to 299), its status, and what reading
  its body gives: \<^verbatim>\<open>resp.text()\<close> resolves with the body text or rejects,
  \<^verbatim>\<open>resp.json()\<close> resolves with the parsed value or rejects (the body is not JSON, or
  reading it failed). A handler reads a body once, by one of the two.
\<close>

datatype js_error = Error (message: string)

record request =
  endpoint :: string
  http_method :: string
  headers :: "(string \<times> string) list"
  body :: string

record response =
  ok :: bool
  status :: nat
  text_result :: "js_error + string"
  json_result :: "js_error + jsval"

type_synonym fetch_result = "js_error + response"

section \<open>App.jsx\<close>

text \<open>
  The four state cells of \<^verbatim>\<open>App.jsx\<close> (lines 4 to 7): \<^verbatim>\<open>error\<close> is \<^verbatim>\<open>null\<close>
  (\<open>None\<close>) or a string, \<^verbatim>\<open>result\<close> is \<^verbatim>\<open>null\<close> or the parsed payload.
\<close>

record jsx_state =
  url :: string
  loading :: bool
  result :: jsval
  error :: "string option"

definition jsx_init :: jsx_state where
  "jsx_init = \<lparr>url = [], loading = False, result = JNull, error = None\<rparr>"

definition apiUrl :: string where
  "apiUrl = ''http://127.0.0.1:5000/predict_url''"

text \<open>
  \<^verbatim>\<open>handleSubmit\<close> (lines 11 to 42) runs in two parts, with the event loop free in
  between. The first part runs when the form is submitted, up to the \<^verbatim>\<open>await fetch\<close>:
  it clears both cells, trims the input, and either sets the validation message and
  returns, or sets \<^verbatim>\<open>loading\<close> and sends the request. The second part runs when the
  transport has settled and the body has been read; no cell is written between the
  \<^verbatim>\<open>await fetch\<close> and the end of the body read, so the two awaits are one step here.
\<close>

definition handleSubmit_begin :: "jsx_state \<Rightarrow> jsx_state \<times> request option" where
  "handleSubmit_begin s =
     (let s1 = s\<lparr>error := None, result := JNull\<rparr>;
          trimmed = trim (url s)
      in if trimmed = []
         then (s1\<lparr>error := Some ''Please enter a URL to scan.''\<rparr>, None)
         else (s1\<lparr>loading := True\<rparr>,
               Some \<lparr>endpoint = apiUrl, http_method = ''POST'',
                     headers = [(''Content-Type'', ''application/json'')],
                     body = stringify_url trimmed\<rparr>))"

text \<open>The \<^verbatim>\<open>catch\<close> clause, line 38: \<^verbatim>\<open>setError(err.message || "Network error")\<close>.\<close>

definition catch_message :: "js_error \<Rightarrow> string" where
  "catch_message err = (if message err \<noteq> [] then message err else ''Network error'')"

definition catch_jsx :: "js_error \<Rightarrow> jsx_state \<Rightarrow> jsx_state" where
  "catch_jsx err s = s\<lparr>error := Some (catch_message err)\<rparr>"

text \<open>
  The body of the \<^verbatim>\<open>try\<close> after the \<^verbatim>\<open>await fetch\<close> (lines 30 to 36): its result is
  the exception it throws or the payload it hands to \<^verbatim>\<open>setResult\<close>. In
  \<^verbatim>\<open>text || resp.status\<close> an empty body text is falsy.
\<close>

definition try_jsx :: "fetch_result \<Rightarrow> js_error + jsval" where
  "try_jsx r =
     (case r of
        Inl err \<Rightarrow> Inl err
      | Inr resp \<Rightarrow>
          if \<not> ok resp then
            (case text_result resp of
               Inl err \<Rightarrow> Inl err
             | Inr text \<Rightarrow>
                 Inl (Error (''Server error: '' @
                        (if text \<noteq> [] then text else dec_digits (status resp)))))
          else
            (case json_result resp of
               Inl err \<Rightarrow> Inl err
             | Inr data \<Rightarrow> Inr data))"

definition handleSubmit_settle :: "fetch_result \<Rightarrow> jsx_state \<Rightarrow> jsx_state" where
  "handleSubmit_settle r s =
     (case try_jsx r of
        Inl err \<Rightarrow> catch_jsx err s
      | Inr data \<Rightarrow> s\<lparr>result := data\<rparr>) \<lparr>loading := False\<rparr>"

text \<open>
  One submission with nothing else happening while it is in flight: the final state and
  the requests sent. The transport result is consulted only when a request was sent.
\<close>

definition handleSubmit :: "fetch_result \<Rightarrow> jsx_state \<Rightarrow> jsx_state \<times> request list" where
  "handleSubmit r s =
     (case handleSubmit_begin s of
        (s', None) \<Rightarrow> (s', [])
      | (s', Some req) \<Rightarrow> (handleSubmit_settle r s', [req]))"

text \<open>
  What \<^verbatim>\<open>App.jsx\<close> renders (lines 44 to 105), without the static markup. The result
  box carries the two colours and the verdict text, all three chosen by
  \<^verbatim>\<open>result.label === 1\<close>; the score line; the reason tags when the ``Why'' block is
  rendered, each tag being the child value \<^verbatim>\<open>r\<close> of its \<^verbatim>\<open>span\<close>; and the value
  that the debugging pane prints with \<^verbatim>\<open>JSON.stringify\<close>.
\<close>

datatype verdict_text =
    Phishing_text   \<comment> \<open>the text ``Phishing'' followed by the warning sign\<close>
  | Safe_text       \<comment> \<open>the text ``Safe'' followed by the check mark\<close>

record result_box =
  background :: string
  border :: string
  verdict :: verdict_text
  score :: shown_text
  why :: "jsval list option"
  raw :: jsval

record jsx_view =
  input_value :: string
  button :: string
  error_banner :: "string option"
  result_panel :: "result_box option"

text \<open>
  Rendering can throw, in two places. \<^verbatim>\<open>String(result.score)\<close> (line 77) converts an
  object by its \<^verbatim>\<open>toString\<close> and \<^verbatim>\<open>valueOf\<close> methods: a parsed object that has a
  property named \<^verbatim>\<open>toString\<close> of its own hides the built-in method behind a value
  that cannot be called, the built-in \<^verbatim>\<open>valueOf\<close> returns the object itself, and the
  conversion ends in a TypeError; an array is converted element by element, \<^verbatim>\<open>null\<close>
  elements giving the empty text. And React refuses a plain object as the child of an
  element (line 84), also inside an array of children. Nothing catches either error:
  React takes the whole page down, and nothing is displayed from then on.
\<close>

datatype render_error =
    Not_primitive   \<comment> \<open>the TypeError of \<^verbatim>\<open>String\<close>: no primitive value for the object\<close>
  | Invalid_child   \<comment> \<open>React: objects are not valid as a React child\<close>

fun string_throws :: "jsval \<Rightarrow> bool" where
  "string_throws (JObj kvs) = (map_of kvs ''toString'' \<noteq> None)"
| "string_throws (JArr xs) = list_ex string_throws xs"
| "string_throws v = False"

fun child_throws :: "jsval \<Rightarrow> bool" where
  "child_throws (JObj kvs) = True"
| "child_throws (JArr xs) = list_ex child_throws xs"
| "child_throws v = False"



definition render_score :: "jsval \<Rightarrow> render_error + shown_text" where
  "render_score v =
     (case v of
        JNum x \<Rightarrow> Inr (toFixed2 x)
      | _ \<Rightarrow> if string_throws v then Inl Not_primitive else Inr (StringOf v))"

definition render_why :: "jsval \<Rightarrow> render_error + jsval list option" where
  "render_why v =
     (case v of
        JArr rs \<Rightarrow>
          if length rs > 0
          then (if list_ex child_throws rs then Inl Invalid_child else Inr (Some rs))
          else Inr None
      | _ \<Rightarrow> Inr None)"

text \<open>
  The score line is computed while the component function runs, the children are checked
  when React builds the page from what it returned: the TypeError comes first.
\<close>

definition render_result :: "jsval \<Rightarrow> render_error + result_box" where
  "render_result res =
     (case render_score (property res ''score'') of
        Inl e \<Rightarrow> Inl e
      | Inr sc \<Rightarrow>
          (case render_why (property res ''reasons'') of
             Inl e \<Rightarrow> Inl e
           | Inr w \<Rightarrow>
               Inr \<lparr>background = (if property res ''label'' = JNum (Fin 1)
                                  then ''#fee2e2'' else ''#dcfce7''),
                    border = (if property res ''label'' = JNum (Fin 1)
                              then ''1px solid #fca5a5'' else ''1px solid #bbf7d0''),
                    verdict = (if property res ''label'' = JNum (Fin 1)
                               then Phishing_text else Safe_text),
                    score = sc,
                    why = w,
                    raw = res\<rparr>))"

definition render_jsx :: "jsx_state \<Rightarrow> render_error + jsx_view" where
  "render_jsx s =
     (if truthy (result s) then
        (case render_result (result s) of
           Inl e \<Rightarrow> Inl e
         | Inr box \<Rightarrow>
             Inr \<lparr>input_value = url s,
                  button = (if loading s then ''Checking...'' else ''Check''),
                  error_banner = (case error s of
                                    None \<Rightarrow> None
                                  | Some e \<Rightarrow> if e \<noteq> [] then Some e else None),
                  result_panel = Some box\<rparr>)
      else
        Inr \<lparr>input_value = url s,
             button = (if loading s then ''Checking...'' else ''Check''),
             error_banner = (case error s of
                               None \<Rightarrow> None
                             | Some e \<Rightarrow> if e \<noteq> [] then Some e else None),
             result_panel = None\<rparr>)"

text \<open>The page is there as long as rendering the state does not throw.\<close>

definition mounted :: "jsx_state \<Rightarrow> bool" where
  "mounted s = (case render_jsx s of Inl e \<Rightarrow> False | Inr v \<Rightarrow> True)"




text \<open>
  The events of the page and a run of them. \<open>Edit\<close> is the input's \<^verbatim>\<open>onChange\<close>,
  \<open>Submit\<close> the form's \<^verbatim>\<open>onSubmit\<close>, and \<open>Settled r\<close> the moment the transport result
  \<open>r\<close> of a request in flight arrives: the rest of that call of \<^verbatim>\<open>handleSubmit\<close>
  runs then, on the state as it is then. The configuration is the state and the log of
  requests sent so far, oldest first. \<open>step_jsx\<close> is what the handlers do; a run stops
  at a state whose rendering throws, the page being gone: there is no form left to edit
  or submit, and a late transport result sets the cells of a component that is no longer
  there.
\<close>

datatype event = Edit string | Submit | Settled fetch_result

fun step_jsx :: "jsx_state \<times> request list \<Rightarrow> event \<Rightarrow> jsx_state \<times> request list" where
  "step_jsx (s, sent) (Edit v) = (s\<lparr>url := v\<rparr>, sent)"
| "step_jsx (s, sent) Submit =
     (case handleSubmit_begin s of
        (s', None) \<Rightarrow> (s', sent)
      | (s', Some req) \<Rightarrow> (s', sent @ [req]))"
| "step_jsx (s, sent) (Settled r) = (handleSubmit_settle r s, sent)"

fun run_jsx :: "event list \<Rightarrow> jsx_state \<times> request list \<Rightarrow> jsx_state \<times> request list" where
  "run_jsx [] c = c"
| "run_jsx (ev # evs) c = (if mounted (fst c) then run_jsx evs (step_jsx c ev) else c)"

text \<open>
  A transport result delivers a payload when the \<^verbatim>\<open>try\<close> block reaches
  \<^verbatim>\<open>setResult\<close>: the only place where the result cell gets a value other than
  \<^verbatim>\<open>null\<close>.
\<close>

fun delivers :: "event \<Rightarrow> bool" where
  "delivers (Settled r) = (case try_jsx r of Inl err \<Rightarrow> False | Inr data \<Rightarrow> True)"
| "delivers ev = False"

section \<open>App.js\<close>

text \<open>
  The three state cells of \<^verbatim>\<open>App.js\<close> (lines 5 to 7). Its \<^verbatim>\<open>result\<close> cell holds
  \<^verbatim>\<open>null\<close>, the payload's \<^verbatim>\<open>prediction\<close> property, or the object of the
  \<^verbatim>\<open>catch\<close> clause. The names carry the suffix of the file where \<^verbatim>\<open>App.jsx\<close> has
  the same ones.
\<close>

record js_state =
  url_js :: string
  result_js :: jsval
  loading_js :: bool

definition js_init :: js_state where
  "js_init = \<lparr>url_js = [], result_js = JNull, loading_js = False\<rparr>"

text \<open>
  \<^verbatim>\<open>handleSubmit\<close> of \<^verbatim>\<open>App.js\<close> (lines 9 to 30), in the same two parts. The first
  part sets \<^verbatim>\<open>loading\<close>, clears \<^verbatim>\<open>result\<close> and sends the request with the input as
  it is: \<^verbatim>\<open>JSON.stringify({ url })\<close>.
\<close>

definition handleSubmit_js_begin :: "js_state \<Rightarrow> js_state \<times> request" where
  "handleSubmit_js_begin s =
     (s\<lparr>loading_js := True, result_js := JNull\<rparr>,
      \<lparr>endpoint = ''http://127.0.0.1:5000/predict_url'', http_method = ''POST'',
       headers = [(''Content-Type'', ''application/json'')],
       body = stringify_url (url_js s)\<rparr>)"

text \<open>
  The body of the \<^verbatim>\<open>try\<close> after the \<^verbatim>\<open>await fetch\<close> (lines 21 and 22): the status
  is not looked at; \<^verbatim>\<open>data.prediction\<close> throws a TypeError when the body is the JSON
  text \<^verbatim>\<open>null\<close>. The \<^verbatim>\<open>catch\<close> clause (lines 24 and 25) logs the error to the console
  and stores an object with the one property \<^verbatim>\<open>error\<close>; the console is not modelled.
\<close>

definition try_js :: "fetch_result \<Rightarrow> js_error + jsval" where
  "try_js r =
     (case r of
        Inl err \<Rightarrow> Inl err
      | Inr resp \<Rightarrow>
          (case json_result resp of
             Inl err \<Rightarrow> Inl err
           | Inr data \<Rightarrow>
               if nullish data
               then Inl (Error ''Cannot read properties of null (reading 'prediction')'')
               else Inr (property data ''prediction'')))"

definition handleSubmit_js_settle :: "fetch_result \<Rightarrow> js_state \<Rightarrow> js_state" where
  "handleSubmit_js_settle r s =
     (case try_js r of
        Inl err \<Rightarrow> s\<lparr>result_js := JObj [(''error'', JStr ''Something went wrong!'')]\<rparr>
      | Inr p \<Rightarrow> s\<lparr>result_js := p\<rparr>) \<lparr>loading_js := False\<rparr>"

definition handleSubmit_js :: "fetch_result \<Rightarrow> js_state \<Rightarrow> js_state \<times> request list" where
  "handleSubmit_js r s =
     (case handleSubmit_js_begin s of (s', req) \<Rightarrow> (handleSubmit_js_settle r s', [req]))"

text \<open>
  What \<^verbatim>\<open>App.js\<close> renders (lines 32 to 59): the spinner, and the result \<^verbatim>\<open>div\<close> with
  its class and its text, both chosen by \<^verbatim>\<open>result === "phishing"\<close>. There is no score
  and no reason element in this component.
\<close>

datatype verdict_text_js =
    Phishing_Website     \<comment> \<open>the warning sign followed by ``Phishing Website!''\<close>
  | Legitimate_Website   \<comment> \<open>the check mark followed by ``Legitimate Website''\<close>

record result_div =
  className :: string
  content :: verdict_text_js

record js_view =
  input_value_js :: string
  spinner :: bool
  result_shown :: "result_div option"

definition render_js :: "js_state \<Rightarrow> js_view" where
  "render_js s =
     \<lparr>input_value_js = url_js s,
      spinner = loading_js s,
      result_shown =
        (if truthy (result_js s)
         then Some \<lparr>className = ''result '' @
                       (if result_js s = JStr ''phishing'' then ''phishing'' else ''legit''),
                    content = (if result_js s = JStr ''phishing''
                               then Phishing_Website else Legitimate_Website)\<rparr>
         else None)\<rparr>"

text \<open>
  The events of \<^verbatim>\<open>App.js\<close>. Its input has the \<^verbatim>\<open>required\<close> attribute (line 45): the
  browser does not fire \<^verbatim>\<open>onSubmit\<close> while the input's value is the empty string, and
  fires it for any other value, white space included.
\<close>

fun step_js :: "js_state \<times> request list \<Rightarrow> event \<Rightarrow> js_state \<times> request list" where
  "step_js (s, sent) (Edit v) = (s\<lparr>url_js := v\<rparr>, sent)"
| "step_js (s, sent) Submit =
     (if url_js s = [] then (s, sent)
      else (case handleSubmit_js_begin s of (s', req) \<Rightarrow> (s', sent @ [req])))"
| "step_js (s, sent) (Settled r) = (handleSubmit_js_settle r s, sent)"

definition run_js :: "event list \<Rightarrow> js_state \<times> request list \<Rightarrow> js_state \<times> request list" where
  "run_js evs c = foldl step_js c evs"

section \<open>Decimal texts\<close>















section \<open>The first part of a submission\<close>

lemma begin_sends:
  "trim (url s) \<noteq> [] \<Longrightarrow>
   handleSubmit_begin s =
     (s\<lparr>error := None, result := JNull, loading := True\<rparr>,
      Some \<lparr>endpoint = apiUrl, http_method = ''POST'',
            headers = [(''Content-Type'', ''application/json'')],
            body = stringify_url (trim (url s))\<rparr>)"
  by (simp add: handleSubmit_begin_def Let_def)

lemma begin_blank:
  "trim (url s) = [] \<Longrightarrow>
   handleSubmit_begin s =
     (s\<lparr>error := Some ''Please enter a URL to scan.'', result := JNull\<rparr>, None)"
  by (simp add: handleSubmit_begin_def Let_def)

section \<open>Arrivals and runs\<close>

lemma catch_message_nonempty: "catch_message err \<noteq> []"
  by (simp add: catch_message_def)

lemma settle_failed:
  "try_jsx r = Inl err \<Longrightarrow>
   handleSubmit_settle r s = s\<lparr>error := Some (catch_message err), loading := False\<rparr>"
  by (simp add: handleSubmit_settle_def catch_jsx_def)

lemma try_rejected: "try_jsx (Inl err) = Inl err"
  by (simp add: try_jsx_def)

lemma try_not_ok:
  "\<not> ok resp \<Longrightarrow>
   try_jsx (Inr resp) =
     Inl (case text_result resp of
            Inl err \<Rightarrow> err
          | Inr body_text \<Rightarrow>
              Error (''Server error: '' @
                     (if body_text \<noteq> [] then body_text else dec_digits (status resp))))"
  by (simp add: try_jsx_def split: sum.splits)

lemma null_mounted: "result s = JNull \<Longrightarrow> mounted s"
  by (simp add: mounted_def render_jsx_def)

lemma mounted_result: "result s' = result s \<Longrightarrow> mounted s' = mounted s"
  by (cases "truthy (result s)"; cases "render_result (result s)")
     (simp_all add: mounted_def render_jsx_def)

lemma unmounted_run: "\<not> mounted (fst c) \<Longrightarrow> run_jsx evs c = c"
  by (cases evs) simp_all

lemma run_append: "run_jsx (xs @ ys) c = run_jsx ys (run_jsx xs c)"
  by (induction xs arbitrary: c) (simp_all add: unmounted_run)

lemma submit_clears: "result (fst (step_jsx (s, sent) Submit)) = JNull"
  by (simp add: handleSubmit_begin_def Let_def)

lemma step_keeps_null:
  "result (fst c) = JNull \<Longrightarrow> \<not> delivers ev \<Longrightarrow> result (fst (step_jsx c ev)) = JNull"
proof (cases c)
  case (Pair s sent)
  assume n: "result (fst c) = JNull" and d: "\<not> delivers ev"
  show ?thesis
  proof (cases ev)
    case (Edit v)
    with Pair n show ?thesis by simp
  next
    case Submit
    with Pair show ?thesis by (simp only: submit_clears)
  next
    case (Settled r)
    with d obtain err where "try_jsx r = Inl err" by (cases "try_jsx r") simp_all
    with Pair Settled n show ?thesis by (simp add: settle_failed)
  qed
qed

lemma run_keeps_null:
  "result (fst c) = JNull \<Longrightarrow> \<not> list_ex delivers evs \<Longrightarrow> result (fst (run_jsx evs c)) = JNull"
proof (induction evs arbitrary: c)
  case Nil
  then show ?case by simp
next
  case (Cons ev evs)
  from Cons.prems have m: "mounted (fst c)" by (simp add: null_mounted)
  from Cons.prems have "result (fst (step_jsx c ev)) = JNull" by (simp add: step_keeps_null)
  with Cons have "result (fst (run_jsx evs (step_jsx c ev))) = JNull" by simp
  with m show ?case by simp
qed

text \<open>
  A submission whose input is not blank, any events that deliver no payload while it is
  in flight, and then its own transport result, a failure: the failure writes the error
  and the loading cell of a state whose result cell is still \<^verbatim>\<open>null\<close>.
\<close>

lemma failed_arrival_run:
  assumes "mounted s" and "\<not> list_ex delivers evs" and "try_jsx r = Inl err"
  shows "fst (run_jsx (Submit # evs @ [Settled r]) (s, sent)) =
           (fst (run_jsx (Submit # evs) (s, sent)))
             \<lparr>error := Some (catch_message err), loading := False\<rparr>"
    and "result (fst (run_jsx (Submit # evs) (s, sent))) = JNull"
proof -
  let ?c1 = "step_jsx (s, sent) Submit"
  let ?c2 = "run_jsx evs ?c1"
  have r1: "result (fst ?c1) = JNull" by (rule submit_clears)
  then have r2: "result (fst ?c2) = JNull" using assms(2) by (rule run_keeps_null)
  have pre: "run_jsx (Submit # evs) (s, sent) = ?c2" using assms(1) by simp
  show "result (fst (run_jsx (Submit # evs) (s, sent))) = JNull" using r2 pre by simp
  have "run_jsx (Submit # evs @ [Settled r]) (s, sent) = run_jsx [Settled r] ?c2"
    using assms(1) by (simp add: run_append)
  also have "\<dots> = step_jsx ?c2 (Settled r)" using r2 by (simp add: null_mounted)
  finally show "fst (run_jsx (Submit # evs @ [Settled r]) (s, sent)) =
           (fst (run_jsx (Submit # evs) (s, sent)))
             \<lparr>error := Some (catch_message err), loading := False\<rparr>"
    using assms(3) pre by (cases ?c2) (simp add: settle_failed)
qed

lemma failed_arrival_page:
  assumes "mounted s" and "\<not> list_ex delivers evs" and "try_jsx r = Inl err"
  shows "render_jsx (fst (run_jsx (Submit # evs @ [Settled r]) (s, sent))) =
           Inr \<lparr>input_value = url (fst (run_jsx (Submit # evs) (s, sent))),
                button = ''Check'', error_banner = Some (catch_message err),
                result_panel = None\<rparr>"
  using failed_arrival_run [OF assms, of sent]
  by (simp add: render_jsx_def catch_message_nonempty)

lemma submit_js:
  "fst (handleSubmit_js r t) =
     handleSubmit_js_settle r (t\<lparr>loading_js := True, result_js := JNull\<rparr>)"
  by (simp add: handleSubmit_js_def handleSubmit_js_begin_def)

section \<open>What the score line shows\<close>





section \<open>Transport failures\<close>

text \<open>
  Claim C6, as \<^verbatim>\<open>App.jsx\<close> has it. A rejected \<^verbatim>\<open>fetch\<close> sets the error cell to the
  rejection's message, or to ``Network error'' when the message is empty, and turns
  \<^verbatim>\<open>loading\<close> off; it does not touch the result cell, in whatever state it arrives.
  The result was cleared when the submission started. So for a submission with an input
  that is not blank, made on a page that is there, whose \<^verbatim>\<open>fetch\<close> rejects after any
  events that deliver no payload: the result cell is \<^verbatim>\<open>null\<close> whatever verdict it held
  before, and the page shows the error banner and no result box.
\<close>

theorem C6_rejection_sets_error:
  "mounted s \<Longrightarrow> trim (url s) \<noteq> [] \<Longrightarrow> \<not> list_ex delivers evs \<Longrightarrow>
   handleSubmit_settle (Inl err) s0 =
     s0\<lparr>error := Some (catch_message err), loading := False\<rparr> \<and>
   fst (run_jsx (Submit # evs @ [Settled (Inl err)]) (s, sent)) =
     (fst (run_jsx (Submit # evs) (s, sent)))
       \<lparr>error := Some (catch_message err), result := JNull, loading := False\<rparr> \<and>
   render_jsx (fst (run_jsx (Submit # evs @ [Settled (Inl err)]) (s, sent))) =
     Inr \<lparr>input_value = url (fst (run_jsx (Submit # evs) (s, sent))),
          button = ''Check'', error_banner = Some (catch_message err),
          result_panel = None\<rparr>"
proof -
  assume m: "mounted s" and d: "\<not> list_ex delivers evs"
  have t: "try_jsx (Inl err) = Inl err" by (rule try_rejected)
  have a: "handleSubmit_settle (Inl err) s0 =
      s0\<lparr>error := Some (catch_message err), loading := False\<rparr>"
    by (simp add: handleSubmit_settle_def try_jsx_def catch_jsx_def)
  have n: "result (fst (run_jsx (Submit # evs) (s, sent))) = JNull"
    using m d t by (rule failed_arrival_run(2))
  have b: "fst (run_jsx (Submit # evs @ [Settled (Inl err)]) (s, sent)) =
     (fst (run_jsx (Submit # evs) (s, sent)))
       \<lparr>error := Some (catch_message err), result := JNull, loading := False\<rparr>"
    using failed_arrival_run(1) [OF m d t, of sent] n by simp
  have c: "render_jsx (fst (run_jsx (Submit # evs @ [Settled (Inl err)]) (s, sent))) =
     Inr \<lparr>input_value = url (fst (run_jsx (Submit # evs) (s, sent))),
          button = ''Check'', error_banner = Some (catch_message err),
          result_panel = None\<rparr>"
    using m d t by (rule failed_arrival_page)
  from a b c show ?thesis by simp
qed

theorem C6_witness:
  "fst (run_jsx [Submit, Settled (Inl (Error ''Failed to fetch''))]
         (\<lparr>url = ''http://evil.example/login'', loading = False,
           result = JObj [(''label'', JNum (Fin 1)), (''score'', JNum (Fin (93 / 100)))],
           error = None\<rparr>, [])) =
     \<lparr>url = ''http://evil.example/login'', loading = False, result = JNull,
      error = Some ''Failed to fetch''\<rparr>"
proof -
  let ?s = "\<lparr>url = ''http://evil.example/login'', loading = False,
             result = JObj [(''label'', JNum (Fin 1)), (''score'', JNum (Fin (93 / 100)))],
             error = None\<rparr>"
  have m: "mounted ?s"
    by (simp add: mounted_def render_jsx_def render_result_def render_score_def render_why_def)
  have u: "trim (url ?s) \<noteq> []" by (simp add: trim_def is_ws_def)
  have d: "\<not> list_ex delivers []" by simp
  have b: "fst (run_jsx [Submit] (?s, [])) =
      \<lparr>url = ''http://evil.example/login'', loading = True, result = JNull, error = None\<rparr>"
    by code_simp
  from C6_rejection_sets_error [OF m u d, of "Error ''Failed to fetch''" ?s "[]"] b
  show ?thesis by (simp add: catch_message_def)
qed

text \<open>
  The claim as written fails when submissions overlap. Two submissions are made; the
  first one's response arrives, a phishing verdict, while the second is in flight; then
  the second one's \<^verbatim>\<open>fetch\<close> rejects. The rejected submission ends with the verdict of
  the earlier one displayed beside the error.
\<close>

theorem C6_counterexample:
  "render_jsx (fst (run_jsx
     [Edit ''http://evil.example/login'', Submit, Submit,
      Settled (Inr \<lparr>ok = True, status = 200, text_result = Inr [],
                    json_result = Inr (JObj [(''label'', JNum (Fin 1)),
                                             (''score'', JNum (Fin (93 / 100)))])\<rparr>),
      Settled (Inl (Error ''Failed to fetch''))]
     (jsx_init, []))) =
   Inr \<lparr>input_value = ''http://evil.example/login'', button = ''Check'',
        error_banner = Some ''Failed to fetch'',
        result_panel = Some
          \<lparr>background = ''#fee2e2'', border = ''1px solid #fca5a5'', verdict = Phishing_text,
           score = Text ''0.93'', why = None,
           raw = JObj [(''label'', JNum (Fin 1)), (''score'', JNum (Fin (93 / 100)))]\<rparr>\<rparr>"
  by code_simp

text \<open>
  Claim C10. In \<^verbatim>\<open>App.js\<close>, when \<^verbatim>\<open>fetch\<close> rejects or the body is not JSON, the
  result cell becomes the object \<^verbatim>\<open>{ error: "Something went wrong!" }\<close>, which is
  neither \<^verbatim>\<open>null\<close> nor the string \<^verbatim>\<open>"phishing"\<close>, and the page shows the result
  element with the class and the text of a legitimate website.
\<close>

theorem C10_rejection_renders_legitimate:
  "(\<exists>err. r = Inl err) \<or> (\<exists>resp err. r = Inr resp \<and> json_result resp = Inl err) \<Longrightarrow>
   result_js (fst (handleSubmit_js r s)) = JObj [(''error'', JStr ''Something went wrong!'')] \<and>
   result_js (fst (handleSubmit_js r s)) \<noteq> JNull \<and>
   result_js (fst (handleSubmit_js r s)) \<noteq> JStr ''phishing'' \<and>
   render_js (fst (handleSubmit_js r s)) =
     \<lparr>input_value_js = url_js s, spinner = False,
      result_shown = Some \<lparr>className = ''result legit'', content = Legitimate_Website\<rparr>\<rparr>"
  by (auto simp: handleSubmit_js_def handleSubmit_js_begin_def handleSubmit_js_settle_def
      try_js_def render_js_def)

theorem C10_witness:
  "render_js (fst (handleSubmit_js (Inl (Error ''Failed to fetch''))
                    \<lparr>url_js = ''http://evil.example/login'', result_js = JNull, loading_js = False\<rparr>)) =
     \<lparr>input_value_js = ''http://evil.example/login'', spinner = False,
      result_shown = Some \<lparr>className = ''result legit'', content = Legitimate_Website\<rparr>\<rparr> \<and>
   render_js (fst (handleSubmit_js
                    (Inr \<lparr>ok = True, status = 200, text_result = Inr ''<html>'',
                          json_result = Inl (Error ''Unexpected token'')\<rparr>)
                    \<lparr>url_js = ''http://evil.example/login'', result_js = JNull, loading_js = False\<rparr>)) =
     \<lparr>input_value_js = ''http://evil.example/login'', spinner = False,
      result_shown = Some \<lparr>className = ''result legit'', content = Legitimate_Website\<rparr>\<rparr>"
  using C10_rejection_renders_legitimate
    [of "Inl (Error ''Failed to fetch'')"
        "\<lparr>url_js = ''http://evil.example/login'', result_js = JNull, loading_js = False\<rparr>"]
    C10_rejection_renders_legitimate
    [of "Inr \<lparr>ok = True, status = 200, text_result = Inr ''<html>'',
              json_result = Inl (Error ''Unexpected token'')\<rparr>"
        "\<lparr>url_js = ''http://evil.example/login'', result_js = JNull, loading_js = False\<rparr>"]
  by simp

section \<open>Validation and the request\<close>

lemma trim_blank: "list_all is_ws u \<Longrightarrow> trim u = []"
proof -
  assume "list_all is_ws u"
  then have dw: "dropWhile is_ws u = []" by (simp add: list_all_iff)
  show ?thesis unfolding trim_def dw by simp
qed

lemma trim_nonblank: "trim u = [] \<Longrightarrow> list_all is_ws u"
proof -
  assume t: "trim u = []"
  define d where "d = dropWhile is_ws u"
  from t have all: "\<forall>c\<in>set d. is_ws c" by (simp add: trim_def d_def)
  have "d = []"
  proof (rule ccontr)
    assume ne: "d \<noteq> []"
    then have "\<not> is_ws (hd d)" unfolding d_def by (rule hd_dropWhile)
    moreover have "hd d \<in> set d" using ne by simp
    ultimately show False using all by blast
  qed
  then show ?thesis by (simp add: d_def list_all_iff)
qed

text \<open>
  Claim C3, as the two components have it. Each submission that sends anything sends one
  POST to the endpoint with the JSON content type. In \<^verbatim>\<open>App.jsx\<close> the body is
  \<^verbatim>\<open>{"url": t}\<close> with \<open>t\<close> the trimmed input, and nothing is sent when \<open>t\<close> is
  empty. In \<^verbatim>\<open>App.js\<close> the body carries the input as it was typed, untrimmed.
\<close>

theorem C3_request_sent:
  "snd (handleSubmit r s) =
     (if trim (url s) = [] then []
      else [\<lparr>endpoint = ''http://127.0.0.1:5000/predict_url'', http_method = ''POST'',
             headers = [(''Content-Type'', ''application/json'')],
             body = stringify_url (trim (url s))\<rparr>]) \<and>
   snd (handleSubmit_js r' t) =
     [\<lparr>endpoint = ''http://127.0.0.1:5000/predict_url'', http_method = ''POST'',
       headers = [(''Content-Type'', ''application/json'')],
       body = stringify_url (url_js t)\<rparr>]"
  by (simp add: handleSubmit_def begin_sends begin_blank apiUrl_def
      handleSubmit_js_def handleSubmit_js_begin_def)

theorem C3_witness:
  \<open>map body (snd (handleSubmit (Inl (Error ''Failed to fetch''))
        \<lparr>url = ''  http://evil.example/login  '', loading = False, result = JNull, error = None\<rparr>)) =
     [''{"url":"http://evil.example/login"}'']\<close>
proof -
  have t: "trim ''  http://evil.example/login  '' = ''http://evil.example/login''"
    by (simp add: trim_def is_ws_def)
  have q: \<open>stringify_url ''http://evil.example/login'' = ''{"url":"http://evil.example/login"}''\<close>
    by (simp add: stringify_url_def quote_json_def quote_char_def)
  show ?thesis
    using C3_request_sent
      [of "Inl (Error ''Failed to fetch'')"
          "\<lparr>url = ''  http://evil.example/login  '', loading = False, result = JNull, error = None\<rparr>"]
    by (simp add: t q)
qed

text \<open>
  The claim as written also covers \<^verbatim>\<open>App.js\<close>, where it fails: the input with two
  spaces on each side goes out with its spaces.
\<close>

theorem C3_counterexample:
  \<open>map body (snd (handleSubmit_js
        (Inr \<lparr>ok = True, status = 200, text_result = Inr ''{"prediction":"phishing"}'',
              json_result = Inr (JObj [(''prediction'', JStr ''phishing'')])\<rparr>)
        \<lparr>url_js = ''  http://evil.example/login  '', result_js = JNull, loading_js = False\<rparr>)) =
     [''{"url":"  http://evil.example/login  "}''] \<and>
   ''{"url":"  http://evil.example/login  "}'' \<noteq>
     stringify_url (trim ''  http://evil.example/login  '')\<close>
  by (simp add: handleSubmit_js_def handleSubmit_js_begin_def trim_def is_ws_def
      stringify_url_def quote_json_def quote_char_def)

text \<open>
  Claim C8, as the two components have it. For an input that is empty or white space
  only, the submit event of \<^verbatim>\<open>App.jsx\<close> sets the validation message in the same step
  and leaves the log of requests as it was; the page then shows the message and no
  result box. \<^verbatim>\<open>App.js\<close> has no validation of its own:
  the \<^verbatim>\<open>required\<close> attribute holds back the empty input, and an input of white
  space is posted as it is.
\<close>

theorem C8_blank_input:
  "list_all is_ws u \<Longrightarrow>
   step_jsx (s\<lparr>url := u\<rparr>, sent) Submit =
     (s\<lparr>url := u, error := Some ''Please enter a URL to scan.'', result := JNull\<rparr>, sent) \<and>
   render_jsx (fst (step_jsx (s\<lparr>url := u\<rparr>, sent) Submit)) =
     Inr \<lparr>input_value = u, button = (if loading s then ''Checking...'' else ''Check''),
          error_banner = Some ''Please enter a URL to scan.'', result_panel = None\<rparr> \<and>
   step_js (t\<lparr>url_js := u\<rparr>, sent') Submit =
     (if u = [] then (t\<lparr>url_js := u\<rparr>, sent')
      else (t\<lparr>url_js := u, loading_js := True, result_js := JNull\<rparr>,
            sent' @ [\<lparr>endpoint = ''http://127.0.0.1:5000/predict_url'', http_method = ''POST'',
                      headers = [(''Content-Type'', ''application/json'')],
                      body = stringify_url u\<rparr>]))"
  by (simp add: trim_blank begin_blank render_jsx_def handleSubmit_js_begin_def)

theorem C8_witness:
  \<open>list_all is_ws ''   '' \<and>
   step_jsx (\<lparr>url = ''   '', loading = False, result = JNull, error = None\<rparr>, []) Submit =
     (\<lparr>url = ''   '', loading = False, result = JNull,
       error = Some ''Please enter a URL to scan.''\<rparr>, [])\<close>
proof -
  have h: "list_all is_ws ''   ''" by (simp add: is_ws_def)
  show ?thesis
    using h C8_blank_input [OF h, of "\<lparr>url = ''   '', loading = False, result = JNull, error = None\<rparr>" "[]"]
    by simp
qed

text \<open>
  The claim as written fails in \<^verbatim>\<open>App.js\<close>: typing one space and submitting sends a
  request.
\<close>

theorem C8_counterexample:
  \<open>list_all is_ws '' '' \<and>
   snd (run_js [Edit '' '', Submit] (js_init, [])) =
     [\<lparr>endpoint = ''http://127.0.0.1:5000/predict_url'', http_method = ''POST'',
       headers = [(''Content-Type'', ''application/json'')],
       body = ''{"url":" "}''\<rparr>]\<close>
  by (simp add: is_ws_def run_js_def js_init_def handleSubmit_js_begin_def
      stringify_url_def quote_json_def quote_char_def)

section \<open>Responses\<close>

text \<open>
  Claim C4, as the two components have it. In \<^verbatim>\<open>App.jsx\<close> a response that is not
  \<^verbatim>\<open>ok\<close> never stores a verdict: in whatever state it arrives it sets the error cell
  and turns \<^verbatim>\<open>loading\<close> off, and leaves the result cell as it is. The message is
  ``Server error: '' followed by the body text, or by the status code when the body is
  empty; when the body cannot be read it is the message of that failure. The result was
  cleared when the submission started, so for a submission with an input that is not
  blank, made on a page that is there, answered so after any events that deliver no
  payload, the page shows the message and no result box. \<^verbatim>\<open>App.js\<close> never looks at the
  status: a response is handled the same whatever its \<^verbatim>\<open>ok\<close> flag and status are.
\<close>

theorem C4_non_2xx_response:
  "mounted s \<Longrightarrow> trim (url s) \<noteq> [] \<Longrightarrow> \<not> list_ex delivers evs \<Longrightarrow> \<not> ok resp \<Longrightarrow>
   (let shown = (case text_result resp of
                   Inr body_text \<Rightarrow>
                     ''Server error: '' @
                     (if body_text \<noteq> [] then body_text else dec_digits (status resp))
                 | Inl err \<Rightarrow> catch_message err)
    in handleSubmit_settle (Inr resp) s0 = s0\<lparr>error := Some shown, loading := False\<rparr> \<and>
       fst (run_jsx (Submit # evs @ [Settled (Inr resp)]) (s, sent)) =
         (fst (run_jsx (Submit # evs) (s, sent)))
           \<lparr>error := Some shown, result := JNull, loading := False\<rparr> \<and>
       render_jsx (fst (run_jsx (Submit # evs @ [Settled (Inr resp)]) (s, sent))) =
         Inr \<lparr>input_value = url (fst (run_jsx (Submit # evs) (s, sent))),
              button = ''Check'', error_banner = Some shown, result_panel = None\<rparr>) \<and>
   handleSubmit_js (Inr resp) t = handleSubmit_js (Inr (resp\<lparr>ok := b, status := n\<rparr>)) t"
proof -
  assume m: "mounted s" and d: "\<not> list_ex delivers evs" and o: "\<not> ok resp"
  define e where "e = (case text_result resp of
            Inl err \<Rightarrow> err
          | Inr body_text \<Rightarrow>
              Error (''Server error: '' @
                     (if body_text \<noteq> [] then body_text else dec_digits (status resp))))"
  define shown where "shown = (case text_result resp of
                   Inr body_text \<Rightarrow>
                     ''Server error: '' @
                     (if body_text \<noteq> [] then body_text else dec_digits (status resp))
                 | Inl err \<Rightarrow> catch_message err)"
  have t: "try_jsx (Inr resp) = Inl e" using o unfolding e_def by (rule try_not_ok)
  have cm: "catch_message e = shown"
    by (cases "text_result resp") (simp_all add: e_def shown_def catch_message_def)
  have a: "handleSubmit_settle (Inr resp) s0 = s0\<lparr>error := Some shown, loading := False\<rparr>"
    using o
    by (cases "text_result resp")
       (simp_all add: handleSubmit_settle_def try_jsx_def catch_jsx_def catch_message_def
         shown_def)
  have n: "result (fst (run_jsx (Submit # evs) (s, sent))) = JNull"
    using m d t by (rule failed_arrival_run(2))
  have b: "fst (run_jsx (Submit # evs @ [Settled (Inr resp)]) (s, sent)) =
         (fst (run_jsx (Submit # evs) (s, sent)))
           \<lparr>error := Some shown, result := JNull, loading := False\<rparr>"
    using failed_arrival_run(1) [OF m d t, of sent] n cm by simp
  have c: "render_jsx (fst (run_jsx (Submit # evs @ [Settled (Inr resp)]) (s, sent))) =
         Inr \<lparr>input_value = url (fst (run_jsx (Submit # evs) (s, sent))),
              button = ''Check'', error_banner = Some shown, result_panel = None\<rparr>"
    using failed_arrival_page [OF m d t, of sent] cm by simp
  have j: "handleSubmit_js (Inr resp) t = handleSubmit_js (Inr (resp\<lparr>ok := b, status := n\<rparr>)) t"
    by (simp add: handleSubmit_js_def handleSubmit_js_settle_def try_js_def)
  from a b c j show ?thesis unfolding shown_def Let_def by simp
qed

theorem C4_witness:
  "fst (run_jsx
     [Submit,
      Settled (Inr \<lparr>ok = False, status = 500, text_result = Inr [],
                    json_result = Inl (Error ''Unexpected end of JSON input'')\<rparr>)]
     (\<lparr>url = ''http://evil.example/login'', loading = False, result = JNull, error = None\<rparr>, [])) =
   \<lparr>url = ''http://evil.example/login'', loading = False, result = JNull,
    error = Some ''Server error: 500''\<rparr>"
proof -
  let ?s = "\<lparr>url = ''http://evil.example/login'', loading = False, result = JNull, error = None\<rparr>"
  let ?resp = "\<lparr>ok = False, status = 500, text_result = Inr [],
                json_result = Inl (Error ''Unexpected end of JSON input'')\<rparr>"
  have m: "mounted ?s" by (simp add: null_mounted)
  have u: "trim (url ?s) \<noteq> []" by (simp add: trim_def is_ws_def)
  have d: "\<not> list_ex delivers []" by simp
  have o: "\<not> ok ?resp" by simp
  have dd: "dec_digits 500 = ''500''" by code_simp
  have b: "fst (run_jsx [Submit] (?s, [])) =
      \<lparr>url = ''http://evil.example/login'', loading = True, result = JNull, error = None\<rparr>"
    by code_simp
  from C4_non_2xx_response [OF m u d o, of ?s "[]"] b dd
  show ?thesis by (simp add: Let_def)
qed

text \<open>
  The claim as written fails in \<^verbatim>\<open>App.js\<close>: a response with status 500 whose body is
  a JSON prediction is shown as a verdict.
\<close>

theorem C4_counterexample:
  \<open>\<not> ok \<lparr>ok = False, status = 500, text_result = Inr ''{"prediction":"phishing"}'',
          json_result = Inr (JObj [(''prediction'', JStr ''phishing'')])\<rparr> \<and>
   result_shown (render_js (fst (handleSubmit_js
       (Inr \<lparr>ok = False, status = 500, text_result = Inr ''{"prediction":"phishing"}'',
             json_result = Inr (JObj [(''prediction'', JStr ''phishing'')])\<rparr>)
       \<lparr>url_js = ''http://evil.example/login'', result_js = JNull, loading_js = False\<rparr>))) =
     Some \<lparr>className = ''result phishing'', content = Phishing_Website\<rparr>\<close>
  by (simp add: submit_js handleSubmit_js_settle_def try_js_def nullish_def render_js_def)

section \<open>Two submissions in flight\<close>

text \<open>
  Claim C5, as the code has it. Neither component numbers its submissions or cancels a
  request, so a transport result that arrives late is not discarded. Two submissions are
  made, the second one's transport result \<open>r2\<close> arrives first and the first one's result
  \<open>r1\<close> after it. In \<^verbatim>\<open>App.jsx\<close> each arrival writes its own cell only: if \<open>r1\<close>
  delivers a payload, that payload is the result at the end, beside the error message of
  \<open>r2\<close> if \<open>r2\<close> was a failure; if \<open>r1\<close> is a failure, its message is the error at the
  end, beside the payload of \<open>r2\<close> if \<open>r2\<close> delivered one. Only when the payload of
  \<open>r2\<close> took the page down does \<open>r1\<close> change nothing. In \<^verbatim>\<open>App.js\<close> the result cell
  ends as what \<open>r1\<close> gives, whatever \<open>r2\<close> was. Two requests were sent, for the two
  inputs in order.
\<close>

theorem C5_late_result_is_written:
  "mounted s \<Longrightarrow> trim u1 \<noteq> [] \<Longrightarrow> trim u2 \<noteq> [] \<Longrightarrow>
   fst (run_jsx [Edit u1, Submit, Edit u2, Submit, Settled r2, Settled r1] (s, [])) =
     (if mounted (fst (run_jsx [Edit u1, Submit, Edit u2, Submit, Settled r2] (s, [])))
      then \<lparr>url = u2, loading = False,
            result = (case try_jsx r1 of
                        Inr p1 \<Rightarrow> p1
                      | Inl e1 \<Rightarrow> (case try_jsx r2 of Inr p2 \<Rightarrow> p2 | Inl e2 \<Rightarrow> JNull)),
            error = (case try_jsx r1 of
                       Inl e1 \<Rightarrow> Some (catch_message e1)
                     | Inr p1 \<Rightarrow>
                         (case try_jsx r2 of
                            Inl e2 \<Rightarrow> Some (catch_message e2)
                          | Inr p2 \<Rightarrow> None))\<rparr>
      else fst (run_jsx [Edit u1, Submit, Edit u2, Submit, Settled r2] (s, []))) \<and>
   map body (snd (run_jsx [Edit u1, Submit, Edit u2, Submit, Settled r2, Settled r1] (s, []))) =
     [stringify_url (trim u1), stringify_url (trim u2)] \<and>
   result_js (fst (run_js [Edit u1, Submit, Edit u2, Submit, Settled r2, Settled r1] (t, []))) =
     (case try_js r1 of
        Inl e1 \<Rightarrow> JObj [(''error'', JStr ''Something went wrong!'')]
      | Inr p1 \<Rightarrow> p1)"
proof -
  assume m: "mounted s" and u1: "trim u1 \<noteq> []" and u2: "trim u2 \<noteq> []"
  let ?six = "[Edit u1, Submit, Edit u2, Submit, Settled r2, Settled r1]"
  let ?five = "[Edit u1, Submit, Edit u2, Submit, Settled r2]"
  let ?s1 = "s\<lparr>url := u1\<rparr>"
  let ?s3 = "s\<lparr>url := u2, error := None, result := JNull, loading := True\<rparr>"
  let ?q1 = "\<lparr>endpoint = apiUrl, http_method = ''POST'',
              headers = [(''Content-Type'', ''application/json'')],
              body = stringify_url (trim u1)\<rparr>"
  let ?q2 = "\<lparr>endpoint = apiUrl, http_method = ''POST'',
              headers = [(''Content-Type'', ''application/json'')],
              body = stringify_url (trim u2)\<rparr>"
  have m1: "mounted ?s1" using m mounted_result [of ?s1 s] by simp
  have m3: "mounted ?s3" by (simp add: null_mounted)
  have four: "run_jsx [Edit u1, Submit, Edit u2, Submit] (s, []) = (?s3, [?q1, ?q2])"
    using m m1 u1 u2 by (simp add: begin_sends null_mounted)
  have five: "run_jsx ?five (s, []) = (handleSubmit_settle r2 ?s3, [?q1, ?q2])"
    using run_append [of "[Edit u1, Submit, Edit u2, Submit]" "[Settled r2]" "(s, [])"] four m3
    by simp
  have six: "run_jsx ?six (s, []) =
      (if mounted (handleSubmit_settle r2 ?s3)
       then (handleSubmit_settle r1 (handleSubmit_settle r2 ?s3), [?q1, ?q2])
       else (handleSubmit_settle r2 ?s3, [?q1, ?q2]))"
    using run_append [of ?five "[Settled r1]" "(s, [])"] five by simp
  have cells: "handleSubmit_settle r1 (handleSubmit_settle r2 ?s3) =
      \<lparr>url = u2, loading = False,
       result = (case try_jsx r1 of
                   Inr p1 \<Rightarrow> p1
                 | Inl e1 \<Rightarrow> (case try_jsx r2 of Inr p2 \<Rightarrow> p2 | Inl e2 \<Rightarrow> JNull)),
       error = (case try_jsx r1 of
                  Inl e1 \<Rightarrow> Some (catch_message e1)
                | Inr p1 \<Rightarrow>
                    (case try_jsx r2 of
                       Inl e2 \<Rightarrow> Some (catch_message e2)
                     | Inr p2 \<Rightarrow> None))\<rparr>"
    by (cases "try_jsx r1"; cases "try_jsx r2")
       (simp_all add: handleSubmit_settle_def catch_jsx_def)
  have jsx: "fst (run_jsx ?six (s, [])) =
     (if mounted (fst (run_jsx ?five (s, [])))
      then \<lparr>url = u2, loading = False,
            result = (case try_jsx r1 of
                        Inr p1 \<Rightarrow> p1
                      | Inl e1 \<Rightarrow> (case try_jsx r2 of Inr p2 \<Rightarrow> p2 | Inl e2 \<Rightarrow> JNull)),
            error = (case try_jsx r1 of
                       Inl e1 \<Rightarrow> Some (catch_message e1)
                     | Inr p1 \<Rightarrow>
                         (case try_jsx r2 of
                            Inl e2 \<Rightarrow> Some (catch_message e2)
                          | Inr p2 \<Rightarrow> None))\<rparr>
      else fst (run_jsx ?five (s, [])))"
    unfolding six five using cells by simp
  have sent: "map body (snd (run_jsx ?six (s, []))) =
      [stringify_url (trim u1), stringify_url (trim u2)]"
    unfolding six by simp
  from u1 u2 have ne: "u1 \<noteq> []" "u2 \<noteq> []" by (auto simp: trim_def)
  have js: "result_js (fst (run_js ?six (t, []))) =
     (case try_js r1 of
        Inl e1 \<Rightarrow> JObj [(''error'', JStr ''Something went wrong!'')]
      | Inr p1 \<Rightarrow> p1)"
    using ne by (cases "try_js r1")
      (simp_all add: run_js_def handleSubmit_js_begin_def handleSubmit_js_settle_def)
  from jsx sent js show ?thesis by simp
qed

theorem C5_witness:
  "fst (run_jsx
     [Edit ''http://a.example'', Submit, Edit ''http://b.example'', Submit,
      Settled (Inl (Error ''Failed to fetch'')),
      Settled (Inr \<lparr>ok = True, status = 200, text_result = Inr [],
                    json_result = Inr (JObj [(''label'', JNum (Fin 0))])\<rparr>)]
     (jsx_init, [])) =
   \<lparr>url = ''http://b.example'', loading = False, result = JObj [(''label'', JNum (Fin 0))],
    error = Some ''Failed to fetch''\<rparr> \<and>
   fst (run_jsx
     [Edit ''http://a.example'', Submit, Edit ''http://b.example'', Submit,
      Settled (Inr \<lparr>ok = True, status = 200, text_result = Inr [],
                    json_result = Inr (JObj [(''label'', JNum (Fin 1))])\<rparr>),
      Settled (Inl (Error ''Failed to fetch''))]
     (jsx_init, [])) =
   \<lparr>url = ''http://b.example'', loading = False, result = JObj [(''label'', JNum (Fin 1))],
    error = Some ''Failed to fetch''\<rparr>"
proof -
  let ?ok0 = "Inr \<lparr>ok = True, status = 200, text_result = Inr [],
                   json_result = Inr (JObj [(''label'', JNum (Fin 0))])\<rparr>"
  let ?ok1 = "Inr \<lparr>ok = True, status = 200, text_result = Inr [],
                   json_result = Inr (JObj [(''label'', JNum (Fin 1))])\<rparr>"
  let ?rej = "Inl (Error ''Failed to fetch'') :: fetch_result"
  have m: "mounted jsx_init" by code_simp
  have u1: "trim ''http://a.example'' \<noteq> []" by (simp add: trim_def is_ws_def)
  have u2: "trim ''http://b.example'' \<noteq> []" by (simp add: trim_def is_ws_def)
  have t0: "try_jsx ?ok0 = Inr (JObj [(''label'', JNum (Fin 0))])" by (simp add: try_jsx_def)
  have t1: "try_jsx ?ok1 = Inr (JObj [(''label'', JNum (Fin 1))])" by (simp add: try_jsx_def)
  have tr: "try_jsx ?rej = Inl (Error ''Failed to fetch'')" by (simp add: try_jsx_def)
  have five: "mounted (fst (run_jsx
     [Edit ''http://a.example'', Submit, Edit ''http://b.example'', Submit, Settled ?rej]
     (jsx_init, [])))"
    by code_simp
  have five': "mounted (fst (run_jsx
     [Edit ''http://a.example'', Submit, Edit ''http://b.example'', Submit, Settled ?ok1]
     (jsx_init, [])))"
    by code_simp
  from C5_late_result_is_written [OF m u1 u2, of ?rej ?ok0] five t0 tr
  have first: "fst (run_jsx
     [Edit ''http://a.example'', Submit, Edit ''http://b.example'', Submit,
      Settled ?rej, Settled ?ok0] (jsx_init, [])) =
   \<lparr>url = ''http://b.example'', loading = False, result = JObj [(''label'', JNum (Fin 0))],
    error = Some ''Failed to fetch''\<rparr>"
    by (simp add: catch_message_def)
  from C5_late_result_is_written [OF m u1 u2, of ?ok1 ?rej] five' t1 tr
  have second: "fst (run_jsx
     [Edit ''http://a.example'', Submit, Edit ''http://b.example'', Submit,
      Settled ?ok1, Settled ?rej] (jsx_init, [])) =
   \<lparr>url = ''http://b.example'', loading = False, result = JObj [(''label'', JNum (Fin 1))],
    error = Some ''Failed to fetch''\<rparr>"
    by (simp add: catch_message_def)
  from first second show ?thesis by (rule conjI)
qed

text \<open>
  The claim as written fails: the second submission is answered first, with a phishing
  verdict, the first submission's answer comes after it, and the page ends on the first
  submission's ``Safe''.
\<close>

theorem C5_counterexample:
  "render_jsx (fst (run_jsx
     [Edit ''http://a.example'', Submit, Edit ''http://b.example'', Submit,
      Settled (Inr \<lparr>ok = True, status = 200, text_result = Inr [],
                    json_result = Inr (JObj [(''label'', JNum (Fin 1)),
                                             (''score'', JNum (Fin (93 / 100)))])\<rparr>),
      Settled (Inr \<lparr>ok = True, status = 200, text_result = Inr [],
                    json_result = Inr (JObj [(''label'', JNum (Fin 0)),
                                             (''score'', JNum (Fin (3 / 25)))])\<rparr>)]
     (jsx_init, []))) =
   Inr \<lparr>input_value = ''http://b.example'', button = ''Check'', error_banner = None,
        result_panel = Some
          \<lparr>background = ''#dcfce7'', border = ''1px solid #bbf7d0'', verdict = Safe_text,
           score = Text ''0.12'', why = None,
           raw = JObj [(''label'', JNum (Fin 0)), (''score'', JNum (Fin (3 / 25)))]\<rparr>\<rparr>"
  by code_simp

section \<open>Payloads\<close>

text \<open>
  Claim C2, as \<^verbatim>\<open>App.js\<close> has it. When the payload's \<^verbatim>\<open>prediction\<close> is a string
  that is not empty, the page shows the result element, as phishing exactly when the
  string is \<^verbatim>\<open>"phishing"\<close> and as legitimate for any other string; the spinner is off,
  and nothing else is shown, this component having no score and no reason element. When
  the string is empty nothing is shown.
\<close>

theorem C2_prediction_string:
  "json_result resp = Inr payload \<Longrightarrow> property payload ''prediction'' = JStr p \<Longrightarrow>
   render_js (fst (handleSubmit_js (Inr resp) s)) =
     \<lparr>input_value_js = url_js s, spinner = False,
      result_shown =
        (if p = [] then None
         else Some \<lparr>className = ''result '' @ (if p = ''phishing'' then ''phishing'' else ''legit''),
                    content = (if p = ''phishing'' then Phishing_Website
                               else Legitimate_Website)\<rparr>)\<rparr>"
proof -
  assume j: "json_result resp = Inr payload" and p: "property payload ''prediction'' = JStr p"
  from p have "\<not> nullish payload" by (auto simp: nullish_def)
  with j p have "try_js (Inr resp) = Inr (JStr p)" by (simp add: try_js_def)
  then show ?thesis
    by (simp add: submit_js handleSubmit_js_settle_def render_js_def)
qed

theorem C2_witness:
  \<open>render_js (fst (handleSubmit_js
       (Inr \<lparr>ok = True, status = 200, text_result = Inr ''{"prediction":"legit"}'',
             json_result = Inr (JObj [(''prediction'', JStr ''legit'')])\<rparr>)
       \<lparr>url_js = ''http://example.com'', result_js = JNull, loading_js = False\<rparr>)) =
     \<lparr>input_value_js = ''http://example.com'', spinner = False,
      result_shown = Some \<lparr>className = ''result legit'', content = Legitimate_Website\<rparr>\<rparr> \<and>
   render_js (fst (handleSubmit_js
       (Inr \<lparr>ok = True, status = 200, text_result = Inr ''{"prediction":"phishing"}'',
             json_result = Inr (JObj [(''prediction'', JStr ''phishing'')])\<rparr>)
       \<lparr>url_js = ''http://example.com'', result_js = JNull, loading_js = False\<rparr>)) =
     \<lparr>input_value_js = ''http://example.com'', spinner = False,
      result_shown = Some \<lparr>className = ''result phishing'', content = Phishing_Website\<rparr>\<rparr>\<close>
  using C2_prediction_string
      [of \<open>\<lparr>ok = True, status = 200, text_result = Inr ''{"prediction":"legit"}'',
             json_result = Inr (JObj [(''prediction'', JStr ''legit'')])\<rparr>\<close>
          "JObj [(''prediction'', JStr ''legit'')]" "''legit''"
          "\<lparr>url_js = ''http://example.com'', result_js = JNull, loading_js = False\<rparr>"]
    C2_prediction_string
      [of \<open>\<lparr>ok = True, status = 200, text_result = Inr ''{"prediction":"phishing"}'',
             json_result = Inr (JObj [(''prediction'', JStr ''phishing'')])\<rparr>\<close>
          "JObj [(''prediction'', JStr ''phishing'')]" "''phishing''"
          "\<lparr>url_js = ''http://example.com'', result_js = JNull, loading_js = False\<rparr>"]
  by simp

text \<open>
  The claim as written fails at the empty string, which is a string other than
  \<^verbatim>\<open>"phishing"\<close>: the render guard \<^verbatim>\<open>result && ...\<close> finds it falsy and no verdict
  is shown.
\<close>

theorem C2_counterexample:
  \<open>result_shown (render_js (fst (handleSubmit_js
       (Inr \<lparr>ok = True, status = 200, text_result = Inr ''{"prediction":""}'',
             json_result = Inr (JObj [(''prediction'', JStr '''')])\<rparr>)
       \<lparr>url_js = ''http://example.com'', result_js = JNull, loading_js = False\<rparr>))) = None\<close>
  by (simp add: submit_js handleSubmit_js_settle_def try_js_def nullish_def render_js_def)




section \<open>Score and reasons\<close>







end
